theory Spec2Isabelle
  imports Complex_Main "HOL-Library.Multiset"
begin

section \<open>Python values\<close>

text \<open>
  The readings handled by \<^verbatim>\<open>SimpleAnomalyDetector.check_vital_thresholds\<close> are Python
  dictionaries, produced by \<^verbatim>\<open>json.loads\<close> or by a Spark row's \<^verbatim>\<open>asDict()\<close>. A field can
  therefore hold \<^verbatim>\<open>None\<close>, a boolean, a number, a string, a list or a nested dictionary.

  Numbers: a Python \<^verbatim>\<open>int\<close> is unbounded (\<open>PInt\<close>); a finite \<^verbatim>\<open>float\<close> is the rational it
  denotes (\<open>PFloat\<close>), and the three special floats are constructors of their own. The
  program only compares numbers (and subtracts two ints), and Python compares ints and
  floats exactly, so no rounding has to be modelled.

  A character is a code point from 0 to 255, so a string is any Python string over
  these code points.
\<close>

datatype pynum = PInt int | PFloat rat | PosInf | NegInf | NaN

datatype pyval =
    PyNone
  | PyBool bool
  | PyNum pynum
  | PyStr string
  | PyList "pyval list"
  | PyDict "(string \<times> pyval) list"

datatype error = TypeError | AttributeError | KeyError | ValueError | IndexError

text \<open>The effect of a raised exception on the statements that follow it.\<close>

fun bind_res :: "error + 'a \<Rightarrow> ('a \<Rightarrow> error + 'b) \<Rightarrow> error + 'b" where
  "bind_res (Inl e) f = Inl e"
| "bind_res (Inr x) f = f x"

text \<open>\<^verbatim>\<open>a < b\<close> on two numbers. Every comparison with NaN is false.\<close>

fun num_lt :: "pynum \<Rightarrow> pynum \<Rightarrow> bool" where
  "num_lt NaN b = False"
| "num_lt a NaN = False"
| "num_lt (PInt i) (PInt j) = (i < j)"
| "num_lt (PInt i) (PFloat q) = (of_int i < q)"
| "num_lt (PFloat p) (PInt j) = (p < of_int j)"
| "num_lt (PFloat p) (PFloat q) = (p < q)"
| "num_lt PosInf b = False"
| "num_lt a NegInf = False"
| "num_lt NegInf b = True"
| "num_lt a PosInf = True"

text \<open>
  \<^verbatim>\<open>value < threshold\<close> and \<^verbatim>\<open>value > threshold\<close> where the threshold is a number of the
  range table and the value is whatever the reading holds. A \<^verbatim>\<open>bool\<close> is an \<^verbatim>\<open>int\<close>;
  \<^verbatim>\<open>None\<close>, strings, lists and dictionaries do not compare with a number.
\<close>

fun py_lt :: "pyval \<Rightarrow> pynum \<Rightarrow> error + bool" where
  "py_lt (PyBool b) t = Inr (num_lt (PInt (if b then 1 else 0)) t)"
| "py_lt (PyNum n) t = Inr (num_lt n t)"
| "py_lt v t = Inl TypeError"

fun py_gt :: "pyval \<Rightarrow> pynum \<Rightarrow> error + bool" where
  "py_gt (PyBool b) t = Inr (num_lt t (PInt (if b then 1 else 0)))"
| "py_gt (PyNum n) t = Inr (num_lt t n)"
| "py_gt v t = Inl TypeError"

text \<open>Truth value testing, as in \<^verbatim>\<open>if heart_rate:\<close>.\<close>

fun py_truthy :: "pyval \<Rightarrow> bool" where
  "py_truthy PyNone = False"
| "py_truthy (PyBool b) = b"
| "py_truthy (PyNum (PInt i)) = (i \<noteq> 0)"
| "py_truthy (PyNum (PFloat q)) = (q \<noteq> 0)"
| "py_truthy (PyNum n) = True"
| "py_truthy (PyStr s) = (s \<noteq> [])"
| "py_truthy (PyList xs) = (xs \<noteq> [])"
| "py_truthy (PyDict kvs) = (kvs \<noteq> [])"

section \<open>Strings: \<^verbatim>\<open>str.split\<close>, \<^verbatim>\<open>int\<close>, \<^verbatim>\<open>str.upper\<close>\<close>

text \<open>\<^verbatim>\<open>s.split(sep)\<close> for a one-character separator: always at least one part.\<close>

fun split_on :: "char \<Rightarrow> string \<Rightarrow> string list" where
  "split_on sep [] = [[]]"
| "split_on sep (c # cs) =
     (if c = sep then [] # split_on sep cs
      else (case split_on sep cs of
              [] \<Rightarrow> [[c]]
            | part # parts \<Rightarrow> (c # part) # parts))"

text \<open>
  \<^verbatim>\<open>int(s)\<close> on a string: surrounding whitespace is dropped, then comes an optional sign
  and decimal digits, which single underscores may separate. Anything else is a
  \<^verbatim>\<open>ValueError\<close>, and so is a string with more digits than the interpreter's limit
  (4300 by default).

  The whitespace that \<^verbatim>\<open>int\<close> drops is the C whitespace (tab, line feed, vertical tab,
  form feed, carriage return, space) and, outside ASCII, the Unicode spaces, of which
  U+0085 and U+00A0 are below 256. The separators U+001C to U+001F are whitespace for
  \<^verbatim>\<open>str.strip\<close> but not for \<^verbatim>\<open>int\<close>. No code point from 128 to 255 is a decimal digit.
\<close>

definition is_space :: "char \<Rightarrow> bool" where
  "is_space c \<longleftrightarrow> of_char c \<in> {9, 10, 11, 12, 13, 32, 133, 160 :: nat}"

definition is_digit :: "char \<Rightarrow> bool" where
  "is_digit c \<longleftrightarrow> 48 \<le> (of_char c :: nat) \<and> (of_char c :: nat) \<le> 57"

definition strip :: "string \<Rightarrow> string" where
  "strip s = rev (dropWhile is_space (rev (dropWhile is_space s)))"

fun digits_ok :: "string \<Rightarrow> bool" where
  "digits_ok [] = False"
| "digits_ok [c] = is_digit c"
| "digits_ok (c # d # cs) =
     (is_digit c \<and> (if d = CHR ''_'' then digits_ok cs else digits_ok (d # cs)))"

definition digits_val :: "string \<Rightarrow> int" where
  "digits_val s = foldl (\<lambda>acc c. 10 * acc + (int (of_char c) - 48)) 0 (filter is_digit s)"

definition max_str_digits :: nat where
  "max_str_digits = 4300"

definition py_int :: "string \<Rightarrow> error + int" where
  "py_int s =
     (case strip s of
        [] \<Rightarrow> Inl ValueError
      | c # cs \<Rightarrow>
          (let body = (if c = CHR ''-'' \<or> c = CHR ''+'' then cs else c # cs) in
           if digits_ok body \<and> length (filter is_digit body) \<le> max_str_digits
           then Inr (if c = CHR ''-'' then - digits_val body else digits_val body)
           else Inl ValueError))"

text \<open>\<^verbatim>\<open>bp_parts[i]\<close> for a non-negative index.\<close>

definition list_index :: "'a list \<Rightarrow> nat \<Rightarrow> error + 'a" where
  "list_index xs i = (if i < length xs then Inr (xs ! i) else Inl IndexError)"

text \<open>
  \<^verbatim>\<open>s.upper()\<close>: the letters a to z are replaced by A to Z and every other ASCII
  character is kept. A character from 128 to 255 is kept too; Python replaces some of
  them, by characters that do not occur in the name of an alert level, so the lookups
  in \<^verbatim>\<open>ALERT_LEVELS\<close> are the same.
\<close>

definition upper_char :: "char \<Rightarrow> char" where
  "upper_char c =
     (case map_of (zip ''abcdefghijklmnopqrstuvwxyz'' ''ABCDEFGHIJKLMNOPQRSTUVWXYZ'') c of
        None \<Rightarrow> c
      | Some u \<Rightarrow> u)"

definition upper :: "string \<Rightarrow> string" where
  "upper s = map upper_char s"

section \<open>Configuration: \<^verbatim>\<open>config/settings.py\<close>\<close>

record vital_range =
  range_min :: pynum
  range_max :: pynum
  critical_min :: pynum
  critical_max :: pynum

type_synonym range_table = "string \<rightharpoonup> vital_range"

definition VITAL_RANGES :: range_table where
  "VITAL_RANGES =
     [''heart_rate'' \<mapsto>
        \<lparr>range_min = PInt 60, range_max = PInt 100,
         critical_min = PInt 40, critical_max = PInt 130\<rparr>,
      ''temperature'' \<mapsto>
        \<lparr>range_min = PFloat 36, range_max = PFloat (75 / 2),
         critical_min = PFloat 35, critical_max = PFloat (77 / 2)\<rparr>,
      ''oxygen_saturation'' \<mapsto>
        \<lparr>range_min = PInt 95, range_max = PInt 100,
         critical_min = PInt 90, critical_max = PInt 100\<rparr>,
      ''respiratory_rate'' \<mapsto>
        \<lparr>range_min = PInt 12, range_max = PInt 20,
         critical_min = PInt 10, critical_max = PInt 25\<rparr>,
      ''blood_pressure_systolic'' \<mapsto>
        \<lparr>range_min = PInt 90, range_max = PInt 120,
         critical_min = PInt 80, critical_max = PInt 180\<rparr>,
      ''blood_pressure_diastolic'' \<mapsto>
        \<lparr>range_min = PInt 60, range_max = PInt 80,
         critical_min = PInt 50, critical_max = PInt 110\<rparr>]"

text \<open>\<^verbatim>\<open>ALERT_LEVELS.get(name, 1)\<close>.\<close>

definition ALERT_LEVELS :: "string \<rightharpoonup> nat" where
  "ALERT_LEVELS =
     [''LOW'' \<mapsto> 1, ''MEDIUM'' \<mapsto> 2, ''HIGH'' \<mapsto> 3, ''CRITICAL'' \<mapsto> 4]"

definition alert_levels_get :: "string \<Rightarrow> nat" where
  "alert_levels_get name = (case ALERT_LEVELS name of None \<Rightarrow> 1 | Some n \<Rightarrow> n)"

section \<open>\<^verbatim>\<open>SimpleAnomalyDetector.check_vital_thresholds\<close>\<close>

text \<open>
  An anomaly is the dictionary literal the detector appends. The keys \<^verbatim>\<open>threshold\<close> and
  \<^verbatim>\<open>severity\<close> are optional because the alert manager reads them with \<^verbatim>\<open>.get\<close>; the
  detector always sets both.
\<close>

record anomaly =
  vital :: string
  val :: pyval
  reason :: string
  threshold :: "pynum option"
  severity :: "string option"

type_synonym patient_data = "string \<rightharpoonup> pyval"

definition mk_anomaly :: "string \<Rightarrow> pyval \<Rightarrow> string \<Rightarrow> pynum \<Rightarrow> string \<Rightarrow> anomaly" where
  "mk_anomaly name v why t sev =
     \<lparr>vital = name, val = v, reason = why, threshold = Some t, severity = Some sev\<rparr>"

text \<open>\<^verbatim>\<open>patient_data.get(key)\<close>: \<^verbatim>\<open>None\<close> for a missing key.\<close>

definition dict_get :: "patient_data \<Rightarrow> string \<Rightarrow> pyval" where
  "dict_get d key = (case d key of None \<Rightarrow> PyNone | Some v \<Rightarrow> v)"

text \<open>\<^verbatim>\<open>self.vital_ranges[key]\<close>: \<^verbatim>\<open>KeyError\<close> for a missing key.\<close>

definition range_of :: "range_table \<Rightarrow> string \<Rightarrow> error + vital_range" where
  "range_of vital_ranges key =
     (case vital_ranges key of None \<Rightarrow> Inl KeyError | Some r \<Rightarrow> Inr r)"

text \<open>
  The two \<^verbatim>\<open>if\<close>/\<^verbatim>\<open>elif\<close> statements that the source repeats, with only the names
  changed, for heart rate (lines 29 to 62), temperature (68 to 101), respiratory rate
  (130 to 163), systolic (175 to 208) and diastolic pressure (212 to 245): first the
  normal band, then, whatever the first statement did, the critical band.
\<close>

definition band_checks ::
  "string \<Rightarrow> pyval \<Rightarrow> vital_range \<Rightarrow> anomaly list \<Rightarrow> error + anomaly list" where
  "band_checks name v r anomalies =
     bind_res (py_lt v (range_min r)) (\<lambda>below.
     bind_res
       (if below
        then Inr (anomalies @ [mk_anomaly name v ''below normal'' (range_min r) ''medium''])
        else bind_res (py_gt v (range_max r)) (\<lambda>above.
          Inr (if above
               then anomalies @ [mk_anomaly name v ''above normal'' (range_max r) ''medium'']
               else anomalies)))
       (\<lambda>anomalies.
     bind_res (py_lt v (critical_min r)) (\<lambda>low.
       if low
       then Inr (anomalies @ [mk_anomaly name v ''critically low'' (critical_min r) ''high''])
       else bind_res (py_gt v (critical_max r)) (\<lambda>high.
         Inr (if high
              then anomalies @ [mk_anomaly name v ''critically high'' (critical_max r) ''high'']
              else anomalies)))))"

text \<open>
  The block of a scalar vital with both bands (heart rate, temperature, respiratory
  rate): the value is read with \<^verbatim>\<open>.get\<close> and the block is skipped when it is falsy.
\<close>

definition check_scalar ::
  "string \<Rightarrow> range_table \<Rightarrow> patient_data \<Rightarrow> anomaly list \<Rightarrow> error + anomaly list" where
  "check_scalar name vital_ranges patient_data anomalies =
     (let v = dict_get patient_data name in
      if py_truthy v
      then bind_res (range_of vital_ranges name) (\<lambda>r. band_checks name v r anomalies)
      else Inr anomalies)"

text \<open>The oxygen saturation block (lines 104 to 124) has the two lower checks only.\<close>

definition check_oxygen ::
  "range_table \<Rightarrow> patient_data \<Rightarrow> anomaly list \<Rightarrow> error + anomaly list" where
  "check_oxygen vital_ranges patient_data anomalies =
     (let oxygen = dict_get patient_data ''oxygen_saturation'' in
      if py_truthy oxygen
      then
        bind_res (range_of vital_ranges ''oxygen_saturation'') (\<lambda>oxygen_range.
        bind_res (py_lt oxygen (range_min oxygen_range)) (\<lambda>below.
        let anomalies =
          (if below
           then anomalies @ [mk_anomaly ''oxygen_saturation'' oxygen ''below normal''
                               (range_min oxygen_range) ''medium'']
           else anomalies) in
        bind_res (py_lt oxygen (critical_min oxygen_range)) (\<lambda>low.
        Inr (if low
             then anomalies @ [mk_anomaly ''oxygen_saturation'' oxygen ''critically low''
                                 (critical_min oxygen_range) ''high'']
             else anomalies))))
      else Inr anomalies)"

text \<open>
  The first three statements of the \<^verbatim>\<open>try\<close> block (lines 169 to 171). A value that is
  not a string has no \<^verbatim>\<open>split\<close> method.
\<close>

definition parse_bp :: "pyval \<Rightarrow> error + int \<times> int" where
  "parse_bp v =
     (case v of
        PyStr s \<Rightarrow>
          (let bp_parts = split_on CHR ''/'' s in
           bind_res (bind_res (list_index bp_parts 0) py_int) (\<lambda>systolic.
           bind_res (bind_res (list_index bp_parts 1) py_int) (\<lambda>diastolic.
           Inr (systolic, diastolic))))
      | _ \<Rightarrow> Inl AttributeError)"

text \<open>The rest of the \<^verbatim>\<open>try\<close> block (lines 174 to 256).\<close>

definition bp_checks ::
  "range_table \<Rightarrow> int \<Rightarrow> int \<Rightarrow> anomaly list \<Rightarrow> error + anomaly list" where
  "bp_checks vital_ranges systolic diastolic anomalies =
     bind_res (range_of vital_ranges ''blood_pressure_systolic'') (\<lambda>systolic_range.
     bind_res (band_checks ''blood_pressure_systolic'' (PyNum (PInt systolic))
                 systolic_range anomalies) (\<lambda>anomalies.
     bind_res (range_of vital_ranges ''blood_pressure_diastolic'') (\<lambda>diastolic_range.
     bind_res (band_checks ''blood_pressure_diastolic'' (PyNum (PInt diastolic))
                 diastolic_range anomalies) (\<lambda>anomalies.
     let pulse_pressure = systolic - diastolic in
     Inr (if pulse_pressure > 50
          then anomalies @ [mk_anomaly ''pulse_pressure'' (PyNum (PInt pulse_pressure))
                              ''abnormal systolic-diastolic difference'' (PInt 50) ''medium'']
          else anomalies)))))"

text \<open>
  The blood pressure block (lines 166 to 260). \<^verbatim>\<open>except (ValueError, IndexError): pass\<close>
  catches the two errors of the parse, which happen before anything is appended; every
  other exception leaves the function.
\<close>

definition check_blood_pressure ::
  "range_table \<Rightarrow> patient_data \<Rightarrow> anomaly list \<Rightarrow> error + anomaly list" where
  "check_blood_pressure vital_ranges patient_data anomalies =
     (case patient_data ''blood_pressure'' of
        None \<Rightarrow> Inr anomalies
      | Some v \<Rightarrow>
          (case parse_bp v of
             Inl e \<Rightarrow>
               (if e = ValueError \<or> e = IndexError then Inr anomalies else Inl e)
           | Inr (systolic, diastolic) \<Rightarrow>
               bp_checks vital_ranges systolic diastolic anomalies))"

text \<open>
  The four scalar blocks in the order of the source. \<open>Inl\<close> is the exception that leaves
  \<^verbatim>\<open>check_vital_thresholds\<close>, \<open>Inr\<close> the returned list.
\<close>

definition check_scalars ::
  "range_table \<Rightarrow> patient_data \<Rightarrow> error + anomaly list" where
  "check_scalars vital_ranges patient_data =
     bind_res (check_scalar ''heart_rate'' vital_ranges patient_data []) (\<lambda>anomalies.
     bind_res (check_scalar ''temperature'' vital_ranges patient_data anomalies) (\<lambda>anomalies.
     bind_res (check_oxygen vital_ranges patient_data anomalies) (\<lambda>anomalies.
     check_scalar ''respiratory_rate'' vital_ranges patient_data anomalies)))"

definition check_vital_thresholds ::
  "range_table \<Rightarrow> patient_data \<Rightarrow> error + anomaly list" where
  "check_vital_thresholds vital_ranges patient_data =
     bind_res (check_scalars vital_ranges patient_data) (\<lambda>anomalies.
     check_blood_pressure vital_ranges patient_data anomalies)"

section \<open>\<^verbatim>\<open>PatientAlertManager\<close>\<close>

text \<open>
  A stored alert is the dictionary literal of lines 76 to 81, with the keys
  \<^verbatim>\<open>timestamp\<close>, \<^verbatim>\<open>level\<close>, \<^verbatim>\<open>anomalies\<close> and \<^verbatim>\<open>vitals\<close>. The manager's state is
  \<^verbatim>\<open>self.alert_history\<close>, a dictionary from patient ids to lists of alerts. The logger
  is not part of the model: \<^verbatim>\<open>_format_alert_message\<close> and the logging calls only read
  their arguments, and nothing they compute reaches the history.
\<close>

record alert =
  a_timestamp :: string
  a_level :: string
  a_anomalies :: "anomaly list"
  a_vitals :: patient_data

record manager =
  alert_history :: "string \<rightharpoonup> alert list"

text \<open>\<^verbatim>\<open>__init__\<close>: the history starts empty.\<close>

definition new_manager :: manager where
  "new_manager = \<lparr>alert_history = Map.empty\<rparr>"

text \<open>
  Line 55, \<^verbatim>\<open>anomaly.get("severity", "low").upper()\<close>, and the body of the loop of lines
  54 to 57.
\<close>

definition severity_upper :: "anomaly \<Rightarrow> string" where
  "severity_upper a = upper (case severity a of None \<Rightarrow> ''low'' | Some s \<Rightarrow> s)"

definition level_step :: "string \<Rightarrow> anomaly \<Rightarrow> string" where
  "level_step alert_level a =
     (let sev = severity_upper a in
      if alert_levels_get sev > alert_levels_get alert_level then sev else alert_level)"

definition overall_level :: "anomaly list \<Rightarrow> string" where
  "overall_level anomalies = foldl level_step ''LOW'' anomalies"

definition process_anomalies ::
  "manager \<Rightarrow> string \<Rightarrow> string \<Rightarrow> patient_data \<Rightarrow> anomaly list \<Rightarrow> manager" where
  "process_anomalies m patient_id timestamp vitals anomalies =
     (if anomalies = [] then m
      else
        (let alert_level = overall_level anomalies;
             stored = (case alert_history m patient_id of None \<Rightarrow> [] | Some h \<Rightarrow> h)
         in m\<lparr>alert_history := (alert_history m)(patient_id \<mapsto>
                stored @ [\<lparr>a_timestamp = timestamp, a_level = alert_level,
                            a_anomalies = anomalies, a_vitals = vitals\<rparr>])\<rparr>))"

text \<open>
  \<^verbatim>\<open>xs[start:]\<close>: a negative start counts from the end, and a start outside the list is
  clamped.
\<close>

definition slice_from :: "'a list \<Rightarrow> int \<Rightarrow> 'a list" where
  "slice_from xs start =
     (let n = int (length xs);
          s = (if start < 0 then max (start + n) 0 else min start n)
      in drop (nat s) xs)"

definition get_patient_alerts :: "manager \<Rightarrow> string \<Rightarrow> int \<Rightarrow> alert list" where
  "get_patient_alerts m patient_id limit =
     (case alert_history m patient_id of
        None \<Rightarrow> []
      | Some h \<Rightarrow> slice_from h (- limit))"

text \<open>
  \<^verbatim>\<open>generate_alerts\<close> of \<^verbatim>\<open>main.py\<close>: a new manager receives one call of
  \<^verbatim>\<open>process_anomalies\<close> for each result, in order. (The export to a file that follows is
  not modelled.) \<open>process_all\<close> is its loop, from any manager.
\<close>

record anomaly_result =
  res_patient_id :: string
  res_timestamp :: string
  res_vitals :: patient_data
  res_anomalies :: "anomaly list"

definition process_all :: "manager \<Rightarrow> anomaly_result list \<Rightarrow> manager" where
  "process_all m results =
     foldl (\<lambda>m r. process_anomalies m (res_patient_id r) (res_timestamp r)
                     (res_vitals r) (res_anomalies r)) m results"

definition generate_alerts :: "anomaly_result list \<Rightarrow> manager" where
  "generate_alerts anomaly_results = process_all new_manager anomaly_results"


section \<open>Notions used in the statements\<close>

text \<open>\<^verbatim>\<open>a == b\<close> on two numbers.\<close>

fun num_eq :: "pynum \<Rightarrow> pynum \<Rightarrow> bool" where
  "num_eq (PInt i) (PInt j) = (i = j)"
| "num_eq (PInt i) (PFloat q) = (of_int i = q)"
| "num_eq (PFloat p) (PInt j) = (p = of_int j)"
| "num_eq (PFloat p) (PFloat q) = (p = q)"
| "num_eq PosInf PosInf = True"
| "num_eq NegInf NegInf = True"
| "num_eq a b = False"






text \<open>The findings of a returned list that are about one vital.\<close>

definition findings_for :: "string \<Rightarrow> anomaly list \<Rightarrow> anomaly list" where
  "findings_for name res = filter (\<lambda>a. vital a = name) res"

text \<open>Sample data: two findings of the detector, and a result and an alert built on them.\<close>

definition ex_medium :: anomaly where
  "ex_medium =
     mk_anomaly ''heart_rate'' (PyNum (PInt 135)) ''above normal'' (PInt 100) ''medium''"

definition ex_high :: anomaly where
  "ex_high =
     mk_anomaly ''heart_rate'' (PyNum (PInt 135)) ''critically high'' (PInt 130) ''high''"

definition ex_result :: "string \<Rightarrow> string \<Rightarrow> anomaly list \<Rightarrow> anomaly_result" where
  "ex_result pid ts anomalies =
     \<lparr>res_patient_id = pid, res_timestamp = ts,
      res_vitals = [''heart_rate'' \<mapsto> PyNum (PInt 135)], res_anomalies = anomalies\<rparr>"

definition ex_alert :: "string \<Rightarrow> string \<Rightarrow> anomaly list \<Rightarrow> alert" where
  "ex_alert ts lvl anomalies =
     \<lparr>a_timestamp = ts, a_level = lvl, a_anomalies = anomalies,
      a_vitals = [''heart_rate'' \<mapsto> PyNum (PInt 135)]\<rparr>"

section \<open>Evaluation on concrete readings\<close>

lemmas detector_defs =
  check_vital_thresholds_def check_scalars_def check_scalar_def check_oxygen_def
  check_blood_pressure_def parse_bp_def bp_checks_def band_checks_def
  dict_get_def range_of_def VITAL_RANGES_def list_index_def py_int_def strip_def
  digits_val_def is_digit_def is_space_def max_str_digits_def Let_def

text \<open>The conversion to an integer on some strings.\<close>

lemma int_whitespace:
  "py_int (CHR 0xA0 # ''200'') = Inr 200"
  "py_int (CHR 0x85 # ''200'') = Inr 200"
  "py_int (CHR 0x1F # ''200'') = Inl ValueError"
  "py_int '' 2_00 '' = Inr 200"
  "py_int ''2__00'' = Inl ValueError"
  "py_int ''-7'' = Inr (- 7)"
  by (simp_all add: py_int_def strip_def is_space_def is_digit_def digits_val_def
        max_str_digits_def)

lemma int_too_many_digits: "py_int (replicate 4301 CHR ''1'') = Inl ValueError"
proof -
  have "strip (replicate 4301 CHR ''1'') = replicate 4301 CHR ''1''"
    by (simp add: strip_def is_space_def dropWhile_replicate)
  moreover have "filter is_digit (replicate 4301 CHR ''1'') = replicate 4301 CHR ''1''"
    by (simp add: is_digit_def)
  moreover have "replicate 4301 CHR ''1'' = CHR ''1'' # replicate 4300 CHR ''1''"
    by (simp add: replicate_Suc [symmetric] del: replicate_Suc replicate.simps)
  ultimately show ?thesis
    by (simp add: py_int_def max_str_digits_def del: replicate_Suc replicate.simps)
qed

text \<open>
  Claim C1. A reading whose heart rate is present with value 0 should get a
  'below normal' and a 'critically low' finding with the default ranges. The source
  tests \<^verbatim>\<open>if heart_rate:\<close>, which is false for 0, so the block is skipped and the reading
  gets no finding at all.
\<close>

theorem C1_zero_heart_rate_no_finding:
  "check_vital_thresholds VITAL_RANGES [''heart_rate'' \<mapsto> PyNum (PInt 0)] = Inr []"
  by (simp add: detector_defs)

text \<open>
  Claim C3. \<^verbatim>\<open>check_vital_thresholds\<close> should never raise. A reading whose
  \<^verbatim>\<open>blood_pressure\<close> field is present and \<^verbatim>\<open>None\<close> passes the test
  \<^verbatim>\<open>"blood_pressure" in patient_data\<close>; the call of \<^verbatim>\<open>split\<close> then raises
  \<^verbatim>\<open>AttributeError\<close>, which the handler for \<^verbatim>\<open>ValueError\<close> and \<^verbatim>\<open>IndexError\<close> does not
  catch.
\<close>

theorem C3_none_blood_pressure_raises:
  "check_vital_thresholds VITAL_RANGES [''blood_pressure'' \<mapsto> PyNone] = Inl AttributeError"
  by (simp add: detector_defs)

text \<open>
  Claim C5. A reading whose blood pressure field is present but does not parse should
  get no blood pressure finding and no error, and its other vitals should still be
  evaluated. Beside the heart rate 39, which alone gets two findings, a blood pressure
  field that is \<^verbatim>\<open>None\<close> makes the whole call raise \<^verbatim>\<open>AttributeError\<close>: the handler
  catches only the errors of a string that does not parse.
\<close>

theorem C5_none_blood_pressure_beside_heart_rate:
  "check_vital_thresholds VITAL_RANGES
     [''heart_rate'' \<mapsto> PyNum (PInt 39), ''blood_pressure'' \<mapsto> PyNone] =
     Inl AttributeError"
  by (simp add: detector_defs)

text \<open>
  Claim C9. With the default ranges, a reading whose only vital is the blood pressure
  \<^verbatim>\<open>"200/130"\<close> gets exactly five findings, in this order: systolic above normal
  (medium), systolic critically high (high), diastolic above normal (medium), diastolic
  critically high (high), and the pulse pressure finding with value 70, threshold 50 and
  severity medium.
\<close>

theorem C9_blood_pressure_200_130:
  "check_vital_thresholds VITAL_RANGES [''blood_pressure'' \<mapsto> PyStr ''200/130''] =
     Inr [\<lparr>vital = ''blood_pressure_systolic'', val = PyNum (PInt 200),
            reason = ''above normal'', threshold = Some (PInt 120),
            severity = Some ''medium''\<rparr>,
          \<lparr>vital = ''blood_pressure_systolic'', val = PyNum (PInt 200),
            reason = ''critically high'', threshold = Some (PInt 180),
            severity = Some ''high''\<rparr>,
          \<lparr>vital = ''blood_pressure_diastolic'', val = PyNum (PInt 130),
            reason = ''above normal'', threshold = Some (PInt 80),
            severity = Some ''medium''\<rparr>,
          \<lparr>vital = ''blood_pressure_diastolic'', val = PyNum (PInt 130),
            reason = ''critically high'', threshold = Some (PInt 110),
            severity = Some ''high''\<rparr>,
          \<lparr>vital = ''pulse_pressure'', val = PyNum (PInt 70),
            reason = ''abnormal systolic-diastolic difference'',
            threshold = Some (PInt 50), severity = Some ''medium''\<rparr>]"
  by (simp add: detector_defs mk_anomaly_def)

section \<open>The alert level\<close>

lemma alert_levels_get_eq:
  "alert_levels_get s =
     (if s = ''CRITICAL'' then 4 else if s = ''HIGH'' then 3 else if s = ''MEDIUM'' then 2 else 1)"
  by (simp add: alert_levels_get_def ALERT_LEVELS_def)













lemma upper_medium: "upper ''medium'' = ''MEDIUM''"
  by (simp add: upper_def upper_char_def)

lemma upper_high: "upper ''high'' = ''HIGH''"
  by (simp add: upper_def upper_char_def)

lemmas level_eval = overall_level_def level_step_def severity_upper_def
  upper_medium upper_high alert_levels_get_eq Let_def

lemma overall_level_ex_medium: "overall_level [ex_medium] = ''MEDIUM''"
  by (simp add: level_eval ex_medium_def mk_anomaly_def)

lemma overall_level_ex_both: "overall_level [ex_medium, ex_high] = ''HIGH''"
  by (simp add: level_eval ex_medium_def ex_high_def mk_anomaly_def)

lemma overall_level_ex_high: "overall_level [ex_high] = ''HIGH''"
  by (simp add: level_eval ex_high_def mk_anomaly_def)









section \<open>The alert history\<close>



lemma generate_alerts_ex:
  "alert_history
     (generate_alerts
        [ex_result ''p1'' ''t1'' [ex_medium], ex_result ''p1'' ''t2'' [ex_medium, ex_high],
         ex_result ''p1'' ''t3'' [ex_high]]) ''p1'' =
   Some [ex_alert ''t1'' ''MEDIUM'' [ex_medium], ex_alert ''t2'' ''HIGH'' [ex_medium, ex_high],
         ex_alert ''t3'' ''HIGH'' [ex_high]]"
  by (simp add: generate_alerts_def process_all_def process_anomalies_def new_manager_def
        ex_result_def ex_alert_def overall_level_ex_medium overall_level_ex_both
        overall_level_ex_high Let_def)



section \<open>Recent alerts\<close>





text \<open>
  Claim C10. For a patient whose stored history is not empty,
  \<^verbatim>\<open>get_patient_alerts\<close> with the limit 0 returns the whole history, not the empty
  list: the slice \<^verbatim>\<open>[-0:]\<close> starts at index 0.
\<close>

theorem C10_limit_zero_whole_history:
  assumes "alert_history m patient_id = Some h" and "h \<noteq> []"
  shows "get_patient_alerts m patient_id 0 = h \<and> get_patient_alerts m patient_id 0 \<noteq> []"
  using assms by (simp add: get_patient_alerts_def slice_from_def)

text \<open>With three stored alerts, the limit 0 gives all three.\<close>

theorem C10_three_alerts_limit_zero:
  "get_patient_alerts
     (generate_alerts
        [ex_result ''p1'' ''t1'' [ex_medium], ex_result ''p1'' ''t2'' [ex_medium, ex_high],
         ex_result ''p1'' ''t3'' [ex_high]]) ''p1'' 0 =
   [ex_alert ''t1'' ''MEDIUM'' [ex_medium], ex_alert ''t2'' ''HIGH'' [ex_medium, ex_high],
    ex_alert ''t3'' ''HIGH'' [ex_high]]"
  using C10_limit_zero_whole_history [OF generate_alerts_ex] by simp

section \<open>The order of the numbers\<close>

lemma num_lt_irrefl: "\<not> num_lt a a"
  by (cases a) simp_all

lemma num_lt_asym: "num_lt a b \<Longrightarrow> \<not> num_lt b a"
  by (cases a; cases b) simp_all

lemma num_lt_trans: "num_lt a b \<Longrightarrow> num_lt b c \<Longrightarrow> num_lt a c"
  by (cases a; cases b; cases c) simp_all

lemma num_not_lt_trans: "\<not> num_lt b a \<Longrightarrow> num_lt b c \<Longrightarrow> \<not> num_lt c a"
  by (cases a; cases b; cases c) simp_all

lemma num_eq_lt_left: "num_eq a b \<Longrightarrow> num_lt a c = num_lt b c"
  by (cases a; cases b; cases c) auto

lemma num_eq_lt_right: "num_eq a b \<Longrightarrow> num_lt c a = num_lt c b"
  by (cases a; cases b; cases c) auto

section \<open>The blocks of the detector\<close>

text \<open>
  Every block returns the list it was given followed by its own findings, and every
  finding carries the name of the vital of its block.
\<close>

lemma bind_res_Inr:
  "bind_res m f = Inr y \<Longrightarrow> \<exists>x. m = Inr x \<and> f x = Inr y"
  by (cases m) simp_all

lemma band_checks_num:
  "band_checks name (PyNum n) r acc =
     Inr (acc @
       (if num_lt n (range_min r)
        then [mk_anomaly name (PyNum n) ''below normal'' (range_min r) ''medium'']
        else if num_lt (range_max r) n
        then [mk_anomaly name (PyNum n) ''above normal'' (range_max r) ''medium'']
        else []) @
       (if num_lt n (critical_min r)
        then [mk_anomaly name (PyNum n) ''critically low'' (critical_min r) ''high'']
        else if num_lt (critical_max r) n
        then [mk_anomaly name (PyNum n) ''critically high'' (critical_max r) ''high'']
        else []))"
  by (simp add: band_checks_def)

lemma band_checks_acc:
  "band_checks name v r acc = Inr res \<Longrightarrow>
   \<exists>new. band_checks name v r [] = Inr new \<and> res = acc @ new \<and> (\<forall>a\<in>set new. vital a = name)"
  by (cases v) (auto simp: band_checks_def mk_anomaly_def split: if_splits)

lemma check_scalar_acc:
  "check_scalar name vr pd acc = Inr res \<Longrightarrow>
   \<exists>new. check_scalar name vr pd [] = Inr new \<and> res = acc @ new \<and>
         (\<forall>a\<in>set new. vital a = name)"
  unfolding check_scalar_def Let_def
  by (cases "range_of vr name") (auto dest: band_checks_acc split: if_splits)

lemma band_checks_prepend:
  "band_checks name v r [] = Inr new \<Longrightarrow> band_checks name v r acc = Inr (acc @ new)"
  by (cases v) (auto simp: band_checks_def split: if_splits)

lemma check_oxygen_num:
  "vr ''oxygen_saturation'' = Some r \<Longrightarrow> pd ''oxygen_saturation'' = Some (PyNum n) \<Longrightarrow>
   py_truthy (PyNum n) \<Longrightarrow>
   check_oxygen vr pd acc =
     Inr (acc @
       (if num_lt n (range_min r)
        then [mk_anomaly ''oxygen_saturation'' (PyNum n) ''below normal'' (range_min r) ''medium'']
        else []) @
       (if num_lt n (critical_min r)
        then [mk_anomaly ''oxygen_saturation'' (PyNum n) ''critically low'' (critical_min r) ''high'']
        else []))"
  by (simp add: check_oxygen_def dict_get_def range_of_def Let_def)

lemma check_oxygen_acc:
  "check_oxygen vr pd acc = Inr res \<Longrightarrow>
   \<exists>new. check_oxygen vr pd [] = Inr new \<and> res = acc @ new \<and>
         (\<forall>a\<in>set new. vital a = ''oxygen_saturation'' \<and>
            (reason a = ''below normal'' \<or> reason a = ''critically low''))"
  unfolding check_oxygen_def Let_def
  by (cases "range_of vr ''oxygen_saturation''"; cases "dict_get pd ''oxygen_saturation''")
     (auto simp: mk_anomaly_def split: if_splits)

lemma bp_checks_acc:
  assumes "bp_checks vr systolic diastolic acc = Inr res"
  shows "\<exists>new. bp_checks vr systolic diastolic [] = Inr new \<and> res = acc @ new \<and>
           (\<forall>a\<in>set new. vital a \<in> {''blood_pressure_systolic'', ''blood_pressure_diastolic'',
                                     ''pulse_pressure''})"
proof -
  let ?pp = "mk_anomaly ''pulse_pressure'' (PyNum (PInt (systolic - diastolic)))
               ''abnormal systolic-diastolic difference'' (PInt 50) ''medium''"
  from assms obtain sr where sr: "range_of vr ''blood_pressure_systolic'' = Inr sr"
    and 1: "bind_res (band_checks ''blood_pressure_systolic'' (PyNum (PInt systolic)) sr acc)
              (\<lambda>anomalies.
               bind_res (range_of vr ''blood_pressure_diastolic'') (\<lambda>diastolic_range.
               bind_res (band_checks ''blood_pressure_diastolic'' (PyNum (PInt diastolic))
                           diastolic_range anomalies) (\<lambda>anomalies.
               Inr (if systolic - diastolic > 50 then anomalies @ [?pp] else anomalies))))
            = Inr res"
    unfolding bp_checks_def Let_def by (blast dest: bind_res_Inr)
  from 1 obtain a1 where
    a1: "band_checks ''blood_pressure_systolic'' (PyNum (PInt systolic)) sr acc = Inr a1"
    and 2: "bind_res (range_of vr ''blood_pressure_diastolic'') (\<lambda>diastolic_range.
               bind_res (band_checks ''blood_pressure_diastolic'' (PyNum (PInt diastolic))
                           diastolic_range a1) (\<lambda>anomalies.
               Inr (if systolic - diastolic > 50 then anomalies @ [?pp] else anomalies)))
            = Inr res"
    by (blast dest: bind_res_Inr)
  from 2 obtain dr where dr: "range_of vr ''blood_pressure_diastolic'' = Inr dr"
    and 3: "bind_res (band_checks ''blood_pressure_diastolic'' (PyNum (PInt diastolic)) dr a1)
              (\<lambda>anomalies.
               Inr (if systolic - diastolic > 50 then anomalies @ [?pp] else anomalies))
            = Inr res"
    by (blast dest: bind_res_Inr)
  from 3 obtain a2 where
    a2: "band_checks ''blood_pressure_diastolic'' (PyNum (PInt diastolic)) dr a1 = Inr a2"
    and res: "res = (if systolic - diastolic > 50 then a2 @ [?pp] else a2)"
    by (fastforce dest: bind_res_Inr)
  from a1 obtain n1 where
    n1: "band_checks ''blood_pressure_systolic'' (PyNum (PInt systolic)) sr [] = Inr n1"
    and a1_eq: "a1 = acc @ n1"
    and n1_names: "\<forall>a\<in>set n1. vital a = ''blood_pressure_systolic''"
    by (blast dest: band_checks_acc)
  from a2 obtain n2 where
    n2: "band_checks ''blood_pressure_diastolic'' (PyNum (PInt diastolic)) dr [] = Inr n2"
    and a2_eq: "a2 = a1 @ n2"
    and n2_names: "\<forall>a\<in>set n2. vital a = ''blood_pressure_diastolic''"
    by (blast dest: band_checks_acc)
  let ?new = "n1 @ n2 @ (if systolic - diastolic > 50 then [?pp] else [])"
  have "bp_checks vr systolic diastolic [] = Inr ?new"
    unfolding bp_checks_def Let_def
    by (simp add: sr dr n1 band_checks_prepend [OF n2])
  moreover have "res = acc @ ?new"
    by (simp add: res a2_eq a1_eq)
  moreover have "\<forall>a\<in>set ?new. vital a \<in> {''blood_pressure_systolic'',
                   ''blood_pressure_diastolic'', ''pulse_pressure''}"
    using n1_names n2_names by (auto simp: mk_anomaly_def)
  ultimately show ?thesis by blast
qed

lemma check_blood_pressure_acc:
  "check_blood_pressure vr pd acc = Inr res \<Longrightarrow>
   \<exists>new. check_blood_pressure vr pd [] = Inr new \<and> res = acc @ new \<and>
         (\<forall>a\<in>set new. vital a \<in> {''blood_pressure_systolic'', ''blood_pressure_diastolic'',
                                   ''pulse_pressure''})"
  unfolding check_blood_pressure_def
  by (auto dest: bp_checks_acc split: option.splits sum.splits if_splits prod.splits)


lemma check_scalars_Inr:
  assumes "check_scalars vr pd = Inr res"
  shows "\<exists>h t x rr.
           check_scalar ''heart_rate'' vr pd [] = Inr h \<and>
           check_scalar ''temperature'' vr pd [] = Inr t \<and>
           check_oxygen vr pd [] = Inr x \<and>
           check_scalar ''respiratory_rate'' vr pd [] = Inr rr \<and>
           res = h @ t @ x @ rr"
proof -
  from assms obtain h where h: "check_scalar ''heart_rate'' vr pd [] = Inr h"
    and 1: "bind_res (check_scalar ''temperature'' vr pd h) (\<lambda>anomalies.
              bind_res (check_oxygen vr pd anomalies) (\<lambda>anomalies.
              check_scalar ''respiratory_rate'' vr pd anomalies)) = Inr res"
    unfolding check_scalars_def by (blast dest: bind_res_Inr)
  from 1 obtain a2 where a2: "check_scalar ''temperature'' vr pd h = Inr a2"
    and 2: "bind_res (check_oxygen vr pd a2) (\<lambda>anomalies.
              check_scalar ''respiratory_rate'' vr pd anomalies) = Inr res"
    by (blast dest: bind_res_Inr)
  from a2 obtain t where t: "check_scalar ''temperature'' vr pd [] = Inr t" "a2 = h @ t"
    by (blast dest: check_scalar_acc)
  from 2 obtain a3 where a3: "check_oxygen vr pd a2 = Inr a3"
    and 3: "check_scalar ''respiratory_rate'' vr pd a3 = Inr res"
    by (blast dest: bind_res_Inr)
  from a3 obtain x where x: "check_oxygen vr pd [] = Inr x" "a3 = a2 @ x"
    by (blast dest: check_oxygen_acc)
  from 3 obtain rr where rr: "check_scalar ''respiratory_rate'' vr pd [] = Inr rr" "res = a3 @ rr"
    by (blast dest: check_scalar_acc)
  show ?thesis
    using h t x rr by simp
qed

lemma check_vital_thresholds_Inr:
  assumes "check_vital_thresholds vr pd = Inr res"
  shows "\<exists>sc b. check_scalars vr pd = Inr sc \<and> check_blood_pressure vr pd [] = Inr b \<and>
               res = sc @ b"
proof -
  from assms obtain sc where sc: "check_scalars vr pd = Inr sc"
    and 1: "check_blood_pressure vr pd sc = Inr res"
    unfolding check_vital_thresholds_def by (blast dest: bind_res_Inr)
  from 1 obtain b where "check_blood_pressure vr pd [] = Inr b" "res = sc @ b"
    by (blast dest: check_blood_pressure_acc)
  with sc show ?thesis by blast
qed

lemma findings_for_same: "\<forall>a\<in>set xs. vital a = name \<Longrightarrow> findings_for name xs = xs"
  by (simp add: findings_for_def)

lemma findings_for_other:
  "\<forall>a\<in>set xs. vital a \<in> S \<Longrightarrow> name \<notin> S \<Longrightarrow> findings_for name xs = []"
  by (induction xs) (auto simp: findings_for_def)

lemma findings_for_append:
  "findings_for name (xs @ ys) = findings_for name xs @ findings_for name ys"
  by (simp add: findings_for_def)

lemma check_vital_thresholds_parts:
  assumes "check_vital_thresholds vr pd = Inr res"
  shows "check_scalar ''heart_rate'' vr pd [] = Inr (findings_for ''heart_rate'' res) \<and>
         check_scalar ''temperature'' vr pd [] = Inr (findings_for ''temperature'' res) \<and>
         check_oxygen vr pd [] = Inr (findings_for ''oxygen_saturation'' res) \<and>
         check_scalar ''respiratory_rate'' vr pd [] =
           Inr (findings_for ''respiratory_rate'' res)"
proof -
  from assms obtain sc b where sc: "check_scalars vr pd = Inr sc"
    and b: "check_blood_pressure vr pd [] = Inr b" and res: "res = sc @ b"
    by (blast dest: check_vital_thresholds_Inr)
  from sc obtain h t x rr where
    h: "check_scalar ''heart_rate'' vr pd [] = Inr h" and
    t: "check_scalar ''temperature'' vr pd [] = Inr t" and
    x: "check_oxygen vr pd [] = Inr x" and
    rr: "check_scalar ''respiratory_rate'' vr pd [] = Inr rr" and
    sc_eq: "sc = h @ t @ x @ rr"
    by (blast dest: check_scalars_Inr)
  have res_eq: "res = h @ t @ x @ rr @ b"
    by (simp add: res sc_eq)
  have nh: "\<forall>a\<in>set h. vital a = ''heart_rate''"
    using check_scalar_acc [OF h] by simp
  have nt: "\<forall>a\<in>set t. vital a = ''temperature''"
    using check_scalar_acc [OF t] by simp
  have nx: "\<forall>a\<in>set x. vital a = ''oxygen_saturation''"
    using check_oxygen_acc [OF x] by simp
  have nrr: "\<forall>a\<in>set rr. vital a = ''respiratory_rate''"
    using check_scalar_acc [OF rr] by simp
  have nb: "\<forall>a\<in>set b. vital a \<in> {''blood_pressure_systolic'', ''blood_pressure_diastolic'',
                                   ''pulse_pressure''}"
    using check_blood_pressure_acc [OF b] by simp
  have sh: "\<forall>a\<in>set h. vital a \<in> {''heart_rate''}" using nh by simp
  have st: "\<forall>a\<in>set t. vital a \<in> {''temperature''}" using nt by simp
  have sx: "\<forall>a\<in>set x. vital a \<in> {''oxygen_saturation''}" using nx by simp
  have srr: "\<forall>a\<in>set rr. vital a \<in> {''respiratory_rate''}" using nrr by simp
  have "findings_for ''heart_rate'' res = h"
    unfolding res_eq findings_for_append
    by (simp add: findings_for_same [OF nh] findings_for_other [OF st]
          findings_for_other [OF sx] findings_for_other [OF srr] findings_for_other [OF nb])
  moreover have "findings_for ''temperature'' res = t"
    unfolding res_eq findings_for_append
    by (simp add: findings_for_same [OF nt] findings_for_other [OF sh]
          findings_for_other [OF sx] findings_for_other [OF srr] findings_for_other [OF nb])
  moreover have "findings_for ''oxygen_saturation'' res = x"
    unfolding res_eq findings_for_append
    by (simp add: findings_for_same [OF nx] findings_for_other [OF st]
          findings_for_other [OF sh] findings_for_other [OF srr] findings_for_other [OF nb])
  moreover have "findings_for ''respiratory_rate'' res = rr"
    unfolding res_eq findings_for_append
    by (simp add: findings_for_same [OF nrr] findings_for_other [OF st]
          findings_for_other [OF sx] findings_for_other [OF sh] findings_for_other [OF nb])
  ultimately show ?thesis
    using h t x rr by simp
qed

section \<open>The findings of one vital\<close>

lemma check_scalar_num:
  "vr name = Some r \<Longrightarrow> pd name = Some (PyNum n) \<Longrightarrow> py_truthy (PyNum n) \<Longrightarrow>
   check_scalar name vr pd acc = band_checks name (PyNum n) r acc"
  by (simp add: check_scalar_def dict_get_def range_of_def Let_def)

lemma scalar_findings:
  assumes "check_vital_thresholds vr pd = Inr res"
    and "name \<in> {''heart_rate'', ''temperature'', ''respiratory_rate''}"
    and "vr name = Some r" and "pd name = Some (PyNum n)" and "py_truthy (PyNum n)"
  shows "findings_for name res =
       (if num_lt n (range_min r)
        then [mk_anomaly name (PyNum n) ''below normal'' (range_min r) ''medium'']
        else if num_lt (range_max r) n
        then [mk_anomaly name (PyNum n) ''above normal'' (range_max r) ''medium'']
        else []) @
       (if num_lt n (critical_min r)
        then [mk_anomaly name (PyNum n) ''critically low'' (critical_min r) ''high'']
        else if num_lt (critical_max r) n
        then [mk_anomaly name (PyNum n) ''critically high'' (critical_max r) ''high'']
        else [])"
proof -
  have "check_scalar name vr pd [] = Inr (findings_for name res)"
    using check_vital_thresholds_parts [OF assms(1)] assms(2) by blast
  then show ?thesis
    using assms(3-5) by (simp add: check_scalar_num band_checks_num)
qed

lemma oxygen_findings:
  assumes "check_vital_thresholds vr pd = Inr res"
    and "vr ''oxygen_saturation'' = Some r" and "pd ''oxygen_saturation'' = Some (PyNum n)"
    and "py_truthy (PyNum n)"
  shows "findings_for ''oxygen_saturation'' res =
       (if num_lt n (range_min r)
        then [mk_anomaly ''oxygen_saturation'' (PyNum n) ''below normal'' (range_min r) ''medium'']
        else []) @
       (if num_lt n (critical_min r)
        then [mk_anomaly ''oxygen_saturation'' (PyNum n) ''critically low'' (critical_min r) ''high'']
        else [])"
proof -
  have "check_oxygen vr pd [] = Inr (findings_for ''oxygen_saturation'' res)"
    using check_vital_thresholds_parts [OF assms(1)] by blast
  then show ?thesis
    using assms(2-4) by (simp add: check_oxygen_num)
qed

lemma band_order:
  assumes "num_lt cmin mn" and "\<not> num_lt mx mn" and "num_lt mx cmax"
  shows "\<not> num_lt mn cmin" and "\<not> num_lt cmax mn" and "\<not> num_lt mx cmin"
    and "\<not> num_lt cmax mx" and "\<not> num_lt cmax cmin"
proof -
  show 1: "\<not> num_lt mn cmin" using assms(1) by (rule num_lt_asym)
  show 2: "\<not> num_lt cmax mn" using assms(2,3) num_lt_trans by blast
  show 3: "\<not> num_lt mx cmin" using assms(1,2) num_lt_trans by blast
  show 4: "\<not> num_lt cmax mx" using assms(3) by (rule num_lt_asym)
  show 5: "\<not> num_lt cmax cmin" using 2 assms(1) num_lt_trans by blast
qed

lemma heart_rate_39:
  "check_vital_thresholds VITAL_RANGES [''heart_rate'' \<mapsto> PyNum (PInt 39)] =
     Inr [mk_anomaly ''heart_rate'' (PyNum (PInt 39)) ''below normal'' (PInt 60) ''medium'',
          mk_anomaly ''heart_rate'' (PyNum (PInt 39)) ''critically low'' (PInt 40) ''high'']"
  by (simp add: detector_defs)

text \<open>
  Claim C4, as stated: with bands such that critical_min < min \<le> max < critical_max,
  a value equal to critical_min produces no finding. The default heart rate bands are
  40 < 60 \<le> 100 < 130, and the heart rate 40 is below the minimum 60: it gets the
  'below normal' finding.
\<close>

theorem C4_critical_min_is_below_normal:
  "check_vital_thresholds VITAL_RANGES [''heart_rate'' \<mapsto> PyNum (PInt 40)] =
     Inr [\<lparr>vital = ''heart_rate'', val = PyNum (PInt 40), reason = ''below normal'',
            threshold = Some (PInt 60), severity = Some ''medium''\<rparr>]"
  by (simp add: detector_defs mk_anomaly_def)

text \<open>
  Claim C4, amended. Let a scalar vital (heart rate, temperature, oxygen saturation or
  respiratory rate) have bands with critical_min < min \<le> max < critical_max, let its
  value in the reading be a number other than zero, and let the call return. All
  comparisons are strict: a value equal to min or to max gets no finding for that vital;
  a value equal to critical_min gets the 'below normal' finding only, and a value equal
  to critical_max the 'above normal' finding only (none for oxygen saturation, which has
  no upper checks); a value strictly below min gets a 'below normal' (medium) finding
  and, if it is also strictly below critical_min, a 'critically low' (high) finding
  after it.
\<close>

theorem C4_boundaries_and_below:
  assumes bands: "num_lt (critical_min r) (range_min r)"
      "\<not> num_lt (range_max r) (range_min r)"
      "num_lt (range_max r) (critical_max r)"
    and name: "name \<in> {''heart_rate'', ''temperature'', ''oxygen_saturation'',
                        ''respiratory_rate''}"
    and present: "vital_ranges name = Some r" "patient_data name = Some (PyNum n)"
      "py_truthy (PyNum n)"
    and returns: "check_vital_thresholds vital_ranges patient_data = Inr res"
  shows "(num_eq n (range_min r) \<or> num_eq n (range_max r) \<longrightarrow> findings_for name res = []) \<and>
         (num_eq n (critical_min r) \<longrightarrow>
            findings_for name res =
              [mk_anomaly name (PyNum n) ''below normal'' (range_min r) ''medium'']) \<and>
         (num_eq n (critical_max r) \<longrightarrow>
            findings_for name res =
              (if name = ''oxygen_saturation'' then []
               else [mk_anomaly name (PyNum n) ''above normal'' (range_max r) ''medium''])) \<and>
         (num_lt n (range_min r) \<longrightarrow>
            findings_for name res =
              mk_anomaly name (PyNum n) ''below normal'' (range_min r) ''medium'' #
              (if num_lt n (critical_min r)
               then [mk_anomaly name (PyNum n) ''critically low'' (critical_min r) ''high'']
               else []))"
proof -
  note ord = band_order [OF bands]
  have below_not_high: "\<not> num_lt (critical_max r) n" if "num_lt n (range_min r)"
    using that ord(2) num_lt_trans by blast
  show ?thesis
  proof (cases "name = ''oxygen_saturation''")
    case True
    have f: "findings_for name res =
       (if num_lt n (range_min r)
        then [mk_anomaly name (PyNum n) ''below normal'' (range_min r) ''medium'']
        else []) @
       (if num_lt n (critical_min r)
        then [mk_anomaly name (PyNum n) ''critically low'' (critical_min r) ''high'']
        else [])"
      using oxygen_findings [OF returns] present True by simp
    show ?thesis
      unfolding f using bands ord True
      by (auto simp: num_eq_lt_left num_eq_lt_right num_lt_irrefl)
  next
    case False
    then have "name \<in> {''heart_rate'', ''temperature'', ''respiratory_rate''}"
      using name by simp
    note f = scalar_findings [OF returns this present]
    show ?thesis
      unfolding f using bands ord False below_not_high
      by (auto simp: num_eq_lt_left num_eq_lt_right num_lt_irrefl)
  qed
qed

text \<open>
  The heart rate 39 with the default ranges: 'below normal' at 60, then 'critically low'
  at 40.
\<close>

theorem C4_heart_rate_39:
  "num_lt (PInt 40) (PInt 60) \<and> \<not> num_lt (PInt 100) (PInt 60) \<and>
   num_lt (PInt 100) (PInt 130) \<and> py_truthy (PyNum (PInt 39)) \<and>
   num_lt (PInt 39) (PInt 60) \<and> num_lt (PInt 39) (PInt 40) \<and>
   check_vital_thresholds VITAL_RANGES [''heart_rate'' \<mapsto> PyNum (PInt 39)] =
     Inr [\<lparr>vital = ''heart_rate'', val = PyNum (PInt 39), reason = ''below normal'',
            threshold = Some (PInt 60), severity = Some ''medium''\<rparr>,
          \<lparr>vital = ''heart_rate'', val = PyNum (PInt 39), reason = ''critically low'',
            threshold = Some (PInt 40), severity = Some ''high''\<rparr>] \<and>
   findings_for ''heart_rate''
     [\<lparr>vital = ''heart_rate'', val = PyNum (PInt 39), reason = ''below normal'',
        threshold = Some (PInt 60), severity = Some ''medium''\<rparr>,
      \<lparr>vital = ''heart_rate'', val = PyNum (PInt 39), reason = ''critically low'',
        threshold = Some (PInt 40), severity = Some ''high''\<rparr>] =
     [\<lparr>vital = ''heart_rate'', val = PyNum (PInt 39), reason = ''below normal'',
        threshold = Some (PInt 60), severity = Some ''medium''\<rparr>,
      \<lparr>vital = ''heart_rate'', val = PyNum (PInt 39), reason = ''critically low'',
        threshold = Some (PInt 40), severity = Some ''high''\<rparr>]"
proof -
  have returned:
    "check_vital_thresholds VITAL_RANGES [''heart_rate'' \<mapsto> PyNum (PInt 39)] =
       Inr [\<lparr>vital = ''heart_rate'', val = PyNum (PInt 39), reason = ''below normal'',
              threshold = Some (PInt 60), severity = Some ''medium''\<rparr>,
            \<lparr>vital = ''heart_rate'', val = PyNum (PInt 39), reason = ''critically low'',
              threshold = Some (PInt 40), severity = Some ''high''\<rparr>]"
    by (simp add: heart_rate_39 mk_anomaly_def)
  have "VITAL_RANGES ''heart_rate'' =
          Some \<lparr>range_min = PInt 60, range_max = PInt 100,
                 critical_min = PInt 40, critical_max = PInt 130\<rparr>"
    by (simp add: VITAL_RANGES_def)
  from C4_boundaries_and_below [OF _ _ _ _ this _ _ returned, of "PInt 39"]
  have "findings_for ''heart_rate''
     [\<lparr>vital = ''heart_rate'', val = PyNum (PInt 39), reason = ''below normal'',
        threshold = Some (PInt 60), severity = Some ''medium''\<rparr>,
      \<lparr>vital = ''heart_rate'', val = PyNum (PInt 39), reason = ''critically low'',
        threshold = Some (PInt 40), severity = Some ''high''\<rparr>] =
     [\<lparr>vital = ''heart_rate'', val = PyNum (PInt 39), reason = ''below normal'',
        threshold = Some (PInt 60), severity = Some ''medium''\<rparr>,
      \<lparr>vital = ''heart_rate'', val = PyNum (PInt 39), reason = ''critically low'',
        threshold = Some (PInt 40), severity = Some ''high''\<rparr>]"
    by (simp add: mk_anomaly_def)
  with returned show ?thesis
    by simp
qed

section \<open>The upper checks\<close>

lemma findings_for_set: "a \<in> set (findings_for name res) \<longleftrightarrow> a \<in> set res \<and> vital a = name"
  by (simp add: findings_for_def)

lemma check_oxygen_records:
  assumes "check_oxygen vr pd [] = Inr new" and "a \<in> set new"
  shows "\<exists>r v. vr ''oxygen_saturation'' = Some r \<and> pd ''oxygen_saturation'' = Some v \<and>
           (a = \<lparr>vital = ''oxygen_saturation'', val = v, reason = ''below normal'',
                  threshold = Some (range_min r), severity = Some ''medium''\<rparr> \<or>
            a = \<lparr>vital = ''oxygen_saturation'', val = v, reason = ''critically low'',
                  threshold = Some (critical_min r), severity = Some ''high''\<rparr>)"
proof (cases "pd ''oxygen_saturation''")
  case None
  then show ?thesis
    using assms by (simp add: check_oxygen_def dict_get_def)
next
  case (Some v)
  show ?thesis
  proof (cases "vr ''oxygen_saturation''")
    case None
    then show ?thesis
      using assms Some
      by (auto simp: check_oxygen_def dict_get_def range_of_def Let_def split: if_splits)
  next
    case r: (Some r)
    show ?thesis
      using assms Some r
      by (cases v)
         (auto simp: check_oxygen_def dict_get_def range_of_def Let_def mk_anomaly_def
               split: if_splits)
  qed
qed

lemma heart_rate_135_oxygen_93:
  "check_vital_thresholds VITAL_RANGES
     [''heart_rate'' \<mapsto> PyNum (PInt 135), ''oxygen_saturation'' \<mapsto> PyNum (PInt 93)] =
     Inr [\<lparr>vital = ''heart_rate'', val = PyNum (PInt 135), reason = ''above normal'',
            threshold = Some (PInt 100), severity = Some ''medium''\<rparr>,
          \<lparr>vital = ''heart_rate'', val = PyNum (PInt 135), reason = ''critically high'',
            threshold = Some (PInt 130), severity = Some ''high''\<rparr>,
          \<lparr>vital = ''oxygen_saturation'', val = PyNum (PInt 93), reason = ''below normal'',
            threshold = Some (PInt 95), severity = Some ''medium''\<rparr>]"
  by (simp add: detector_defs mk_anomaly_def)

text \<open>
  Claim C2, as stated: an oxygen saturation above the configured maximum gets an
  'above normal' finding. The oxygen block of the source has no upper check: the value
  101, above the default maximum 100, gets no finding.
\<close>

theorem C2_oxygen_101_no_finding:
  "check_vital_thresholds VITAL_RANGES [''oxygen_saturation'' \<mapsto> PyNum (PInt 101)] = Inr []"
  by (simp add: detector_defs)

text \<open>
  Claim C2, amended. In the list that the call returns, oxygen saturation gets the two
  lower checks only: every finding for it is the 'below normal' finding (severity
  medium, threshold min) or the 'critically low' finding (severity high, threshold
  critical_min) of the value in the reading, and a value that is a number other than
  zero gets exactly the first when it is below min, followed by the second when it is
  below critical_min; no value gets an 'above normal' or 'critically high' finding. The
  upper checks are applied to heart rate, temperature and respiratory rate: for a value
  that is a number other than zero, a value strictly greater than max (where
  min \<le> max) gets an 'above normal' finding with severity medium and threshold max, and
  a value strictly greater than critical_max (where critical_min \<le> critical_max) gets a
  'critically high' finding with severity high and threshold critical_max.
\<close>

theorem C2_upper_checks:
  assumes "check_vital_thresholds vital_ranges patient_data = Inr res"
  shows "(\<forall>a\<in>set res. vital a = ''oxygen_saturation'' \<longrightarrow>
            (\<exists>r v. vital_ranges ''oxygen_saturation'' = Some r \<and>
                   patient_data ''oxygen_saturation'' = Some v \<and>
                   (a = \<lparr>vital = ''oxygen_saturation'', val = v, reason = ''below normal'',
                          threshold = Some (range_min r), severity = Some ''medium''\<rparr> \<or>
                    a = \<lparr>vital = ''oxygen_saturation'', val = v, reason = ''critically low'',
                          threshold = Some (critical_min r), severity = Some ''high''\<rparr>))) \<and>
         (\<forall>r n.
            vital_ranges ''oxygen_saturation'' = Some r \<and>
            patient_data ''oxygen_saturation'' = Some (PyNum n) \<and> py_truthy (PyNum n) \<longrightarrow>
            findings_for ''oxygen_saturation'' res =
              (if num_lt n (range_min r)
               then [\<lparr>vital = ''oxygen_saturation'', val = PyNum n, reason = ''below normal'',
                       threshold = Some (range_min r), severity = Some ''medium''\<rparr>]
               else []) @
              (if num_lt n (critical_min r)
               then [\<lparr>vital = ''oxygen_saturation'', val = PyNum n, reason = ''critically low'',
                       threshold = Some (critical_min r), severity = Some ''high''\<rparr>]
               else [])) \<and>
         (\<forall>name r n.
            name \<in> {''heart_rate'', ''temperature'', ''respiratory_rate''} \<and>
            vital_ranges name = Some r \<and> patient_data name = Some (PyNum n) \<and>
            py_truthy (PyNum n) \<longrightarrow>
            (num_lt (range_max r) n \<and> \<not> num_lt (range_max r) (range_min r) \<longrightarrow>
               \<lparr>vital = name, val = PyNum n, reason = ''above normal'',
                 threshold = Some (range_max r), severity = Some ''medium''\<rparr> \<in> set res) \<and>
            (num_lt (critical_max r) n \<and> \<not> num_lt (critical_max r) (critical_min r) \<longrightarrow>
               \<lparr>vital = name, val = PyNum n, reason = ''critically high'',
                 threshold = Some (critical_max r), severity = Some ''high''\<rparr> \<in> set res))"
proof (intro conjI ballI allI impI)
  fix a
  assume a: "a \<in> set res" "vital a = ''oxygen_saturation''"
  have "check_oxygen vital_ranges patient_data [] =
          Inr (findings_for ''oxygen_saturation'' res)"
    using check_vital_thresholds_parts [OF assms] by blast
  moreover have "a \<in> set (findings_for ''oxygen_saturation'' res)"
    using a by (simp add: findings_for_set)
  ultimately show "\<exists>r v. vital_ranges ''oxygen_saturation'' = Some r \<and>
                   patient_data ''oxygen_saturation'' = Some v \<and>
                   (a = \<lparr>vital = ''oxygen_saturation'', val = v, reason = ''below normal'',
                          threshold = Some (range_min r), severity = Some ''medium''\<rparr> \<or>
                    a = \<lparr>vital = ''oxygen_saturation'', val = v, reason = ''critically low'',
                          threshold = Some (critical_min r), severity = Some ''high''\<rparr>)"
    by (rule check_oxygen_records)
next
  fix r n
  assume "vital_ranges ''oxygen_saturation'' = Some r \<and>
          patient_data ''oxygen_saturation'' = Some (PyNum n) \<and> py_truthy (PyNum n)"
  then show "findings_for ''oxygen_saturation'' res =
              (if num_lt n (range_min r)
               then [\<lparr>vital = ''oxygen_saturation'', val = PyNum n, reason = ''below normal'',
                       threshold = Some (range_min r), severity = Some ''medium''\<rparr>]
               else []) @
              (if num_lt n (critical_min r)
               then [\<lparr>vital = ''oxygen_saturation'', val = PyNum n, reason = ''critically low'',
                       threshold = Some (critical_min r), severity = Some ''high''\<rparr>]
               else [])"
    using oxygen_findings [OF assms, of r n] by (simp add: mk_anomaly_def)
next
  fix name r n
  assume h: "name \<in> {''heart_rate'', ''temperature'', ''respiratory_rate''} \<and>
            vital_ranges name = Some r \<and> patient_data name = Some (PyNum n) \<and>
            py_truthy (PyNum n)"
  then have f: "findings_for name res =
       (if num_lt n (range_min r)
        then [mk_anomaly name (PyNum n) ''below normal'' (range_min r) ''medium'']
        else if num_lt (range_max r) n
        then [mk_anomaly name (PyNum n) ''above normal'' (range_max r) ''medium'']
        else []) @
       (if num_lt n (critical_min r)
        then [mk_anomaly name (PyNum n) ''critically low'' (critical_min r) ''high'']
        else if num_lt (critical_max r) n
        then [mk_anomaly name (PyNum n) ''critically high'' (critical_max r) ''high'']
        else [])"
    using scalar_findings [OF assms] by blast
  {
    assume "num_lt (range_max r) n \<and> \<not> num_lt (range_max r) (range_min r)"
    then have "num_lt (range_max r) n" and "\<not> num_lt n (range_min r)"
      using num_not_lt_trans by blast+
    then have "\<lparr>vital = name, val = PyNum n, reason = ''above normal'',
                 threshold = Some (range_max r), severity = Some ''medium''\<rparr>
                 \<in> set (findings_for name res)"
      unfolding f by (simp add: mk_anomaly_def)
    then show "\<lparr>vital = name, val = PyNum n, reason = ''above normal'',
                 threshold = Some (range_max r), severity = Some ''medium''\<rparr> \<in> set res"
      by (simp add: findings_for_set)
  }
  {
    assume "num_lt (critical_max r) n \<and> \<not> num_lt (critical_max r) (critical_min r)"
    then have "num_lt (critical_max r) n" and "\<not> num_lt n (critical_min r)"
      using num_not_lt_trans by blast+
    then have "\<lparr>vital = name, val = PyNum n, reason = ''critically high'',
                 threshold = Some (critical_max r), severity = Some ''high''\<rparr>
                 \<in> set (findings_for name res)"
      unfolding f by (simp add: mk_anomaly_def)
    then show "\<lparr>vital = name, val = PyNum n, reason = ''critically high'',
                 threshold = Some (critical_max r), severity = Some ''high''\<rparr> \<in> set res"
      by (simp add: findings_for_set)
  }
qed

text \<open>
  The heart rate 135 and the oxygen saturation 93 with the default ranges: both upper
  findings for the heart rate, and the 'below normal' finding for oxygen.
\<close>

theorem C2_heart_rate_135:
  "check_vital_thresholds VITAL_RANGES
     [''heart_rate'' \<mapsto> PyNum (PInt 135), ''oxygen_saturation'' \<mapsto> PyNum (PInt 93)] =
     Inr [\<lparr>vital = ''heart_rate'', val = PyNum (PInt 135), reason = ''above normal'',
            threshold = Some (PInt 100), severity = Some ''medium''\<rparr>,
          \<lparr>vital = ''heart_rate'', val = PyNum (PInt 135), reason = ''critically high'',
            threshold = Some (PInt 130), severity = Some ''high''\<rparr>,
          \<lparr>vital = ''oxygen_saturation'', val = PyNum (PInt 93), reason = ''below normal'',
            threshold = Some (PInt 95), severity = Some ''medium''\<rparr>] \<and>
   num_lt (PInt 100) (PInt 135) \<and> num_lt (PInt 130) (PInt 135) \<and>
   findings_for ''oxygen_saturation''
     [\<lparr>vital = ''heart_rate'', val = PyNum (PInt 135), reason = ''above normal'',
        threshold = Some (PInt 100), severity = Some ''medium''\<rparr>,
      \<lparr>vital = ''heart_rate'', val = PyNum (PInt 135), reason = ''critically high'',
        threshold = Some (PInt 130), severity = Some ''high''\<rparr>,
      \<lparr>vital = ''oxygen_saturation'', val = PyNum (PInt 93), reason = ''below normal'',
        threshold = Some (PInt 95), severity = Some ''medium''\<rparr>] =
     [\<lparr>vital = ''oxygen_saturation'', val = PyNum (PInt 93), reason = ''below normal'',
        threshold = Some (PInt 95), severity = Some ''medium''\<rparr>]"
proof -
  let ?hr = "\<lparr>range_min = PInt 60, range_max = PInt 100,
              critical_min = PInt 40, critical_max = PInt 130\<rparr>"
  let ?ox = "\<lparr>range_min = PInt 95, range_max = PInt 100,
              critical_min = PInt 90, critical_max = PInt 100\<rparr>"
  let ?pd = "[''heart_rate'' \<mapsto> PyNum (PInt 135), ''oxygen_saturation'' \<mapsto> PyNum (PInt 93)]"
  note all = C2_upper_checks [OF heart_rate_135_oxygen_93]
  have oxygen: "VITAL_RANGES ''oxygen_saturation'' = Some ?ox \<and>
                ?pd ''oxygen_saturation'' = Some (PyNum (PInt 93)) \<and>
                py_truthy (PyNum (PInt 93))"
    by (simp add: VITAL_RANGES_def)
  have heart:
    "''heart_rate'' \<in> {''heart_rate'', ''temperature'', ''respiratory_rate''} \<and>
     VITAL_RANGES ''heart_rate'' = Some ?hr \<and>
     ?pd ''heart_rate'' = Some (PyNum (PInt 135)) \<and> py_truthy (PyNum (PInt 135))"
    by (simp add: VITAL_RANGES_def)
  note ox = conjunct1 [OF conjunct2 [OF all], rule_format, OF oxygen]
  note hr = conjunct2 [OF conjunct2 [OF all], rule_format, OF heart]
  from ox hr show ?thesis
    by (simp add: heart_rate_135_oxygen_93)
qed

section \<open>A blood pressure that does not parse\<close>

lemma bind_res_Inl:
  "bind_res m f = Inl e \<Longrightarrow> m = Inl e \<or> (\<exists>x. m = Inr x \<and> f x = Inl e)"
  by (cases m) simp_all

lemma bind_res_return: "bind_res m Inr = m"
  by (cases m) simp_all

lemma py_int_error: "py_int s = Inl e \<Longrightarrow> e = ValueError"
  by (auto simp: py_int_def Let_def split: list.splits if_splits)

lemma list_index_error: "list_index xs i = Inl e \<Longrightarrow> e = IndexError"
  by (auto simp: list_index_def split: if_splits)

lemma index_int_error:
  "bind_res (list_index xs i) py_int = Inl e \<Longrightarrow> e = ValueError \<or> e = IndexError"
  by (blast dest: bind_res_Inl py_int_error list_index_error)

lemma parse_bp_str_error:
  assumes "parse_bp (PyStr s) = Inl e"
  shows "e = ValueError \<or> e = IndexError"
proof -
  let ?parts = "split_on CHR ''/'' s"
  from assms have
    "bind_res (bind_res (list_index ?parts 0) py_int) (\<lambda>systolic.
       bind_res (bind_res (list_index ?parts 1) py_int) (\<lambda>diastolic.
       Inr (systolic, diastolic))) = Inl e"
    by (simp add: parse_bp_def Let_def)
  then consider "bind_res (list_index ?parts 0) py_int = Inl e"
    | "bind_res (list_index ?parts 1) py_int = Inl e"
    by (auto dest!: bind_res_Inl)
  then show ?thesis
    by cases (blast dest: index_int_error)+
qed

lemma check_scalars_without_bp:
  "check_scalars vr (pd(''blood_pressure'' := v)) = check_scalars vr pd"
  by (simp add: check_scalars_def check_scalar_def check_oxygen_def dict_get_def)

lemma parse_not_a_number: "parse_bp (PyStr ''not-a-number'') = Inl ValueError"
  by (simp add: parse_bp_def list_index_def py_int_def strip_def is_space_def is_digit_def)

text \<open>
  When the blood pressure field of a reading is a string that does not parse (the split
  or one of the two conversions to an integer fails), the blood pressure block returns
  the list it was given, the call gives exactly what the four scalar blocks give, which
  is also what the same reading without the blood pressure field gives, and a returned
  list has no finding for systolic pressure, diastolic pressure or pulse pressure.
\<close>

lemma unparsed_string_blood_pressure_skipped:
  assumes present: "patient_data ''blood_pressure'' = Some (PyStr s)"
    and fails: "parse_bp (PyStr s) = Inl e"
  shows "check_blood_pressure vital_ranges patient_data anomalies = Inr anomalies \<and>
         check_vital_thresholds vital_ranges patient_data =
           check_scalars vital_ranges patient_data \<and>
         check_vital_thresholds vital_ranges patient_data =
           check_vital_thresholds vital_ranges (patient_data(''blood_pressure'' := None)) \<and>
         (\<forall>res. check_vital_thresholds vital_ranges patient_data = Inr res \<longrightarrow>
            (\<forall>a\<in>set res. vital a \<notin> {''blood_pressure_systolic'',
               ''blood_pressure_diastolic'', ''pulse_pressure''}))"
proof -
  have e: "e = ValueError \<or> e = IndexError"
    using fails by (rule parse_bp_str_error)
  have block: "check_blood_pressure vital_ranges patient_data acc = Inr acc" for acc
    using present fails e by (auto simp: check_blood_pressure_def)
  have whole: "check_vital_thresholds vital_ranges patient_data =
                 check_scalars vital_ranges patient_data"
    by (simp add: check_vital_thresholds_def block bind_res_return)
  have without: "check_vital_thresholds vital_ranges (patient_data(''blood_pressure'' := None)) =
                   check_scalars vital_ranges patient_data"
    by (simp add: check_vital_thresholds_def check_blood_pressure_def
          check_scalars_without_bp bind_res_return)
  have names: "\<forall>a\<in>set res. vital a \<notin> {''blood_pressure_systolic'',
                 ''blood_pressure_diastolic'', ''pulse_pressure''}"
    if "check_vital_thresholds vital_ranges patient_data = Inr res" for res
  proof -
    from that have "check_scalars vital_ranges patient_data = Inr res"
      by (simp add: whole)
    then obtain h t x rr where
      h: "check_scalar ''heart_rate'' vital_ranges patient_data [] = Inr h" and
      t: "check_scalar ''temperature'' vital_ranges patient_data [] = Inr t" and
      x: "check_oxygen vital_ranges patient_data [] = Inr x" and
      rr: "check_scalar ''respiratory_rate'' vital_ranges patient_data [] = Inr rr" and
      res: "res = h @ t @ x @ rr"
      by (blast dest: check_scalars_Inr)
    have "\<forall>a\<in>set h. vital a = ''heart_rate''"
      using check_scalar_acc [OF h] by simp
    moreover have "\<forall>a\<in>set t. vital a = ''temperature''"
      using check_scalar_acc [OF t] by simp
    moreover have "\<forall>a\<in>set x. vital a = ''oxygen_saturation''"
      using check_oxygen_acc [OF x] by simp
    moreover have "\<forall>a\<in>set rr. vital a = ''respiratory_rate''"
      using check_scalar_acc [OF rr] by simp
    ultimately show ?thesis
      unfolding res by auto
  qed
  show ?thesis
    using block whole without names by simp
qed

text \<open>
  The blood pressure \<^verbatim>\<open>"not-a-number"\<close> beside the heart rate 39: the two heart rate
  findings and no error.
\<close>

lemma not_a_number_skipped:
  "parse_bp (PyStr ''not-a-number'') = Inl ValueError \<and>
   check_vital_thresholds VITAL_RANGES
     [''heart_rate'' \<mapsto> PyNum (PInt 39), ''blood_pressure'' \<mapsto> PyStr ''not-a-number''] =
     Inr [\<lparr>vital = ''heart_rate'', val = PyNum (PInt 39), reason = ''below normal'',
            threshold = Some (PInt 60), severity = Some ''medium''\<rparr>,
          \<lparr>vital = ''heart_rate'', val = PyNum (PInt 39), reason = ''critically low'',
            threshold = Some (PInt 40), severity = Some ''high''\<rparr>]"
  using unparsed_string_blood_pressure_skipped [of "[''heart_rate'' \<mapsto> PyNum (PInt 39), ''blood_pressure'' \<mapsto> PyStr ''not-a-number'']"
      "''not-a-number''" ValueError VITAL_RANGES "[]", OF _ parse_not_a_number]
  by (simp add: parse_not_a_number check_scalars_def check_scalar_def check_oxygen_def
        band_checks_def dict_get_def range_of_def VITAL_RANGES_def mk_anomaly_def Let_def)

end
